theory Spec2Isabelle
  imports Complex_Main "HOL-Library.Multiset"
begin

section \<open>TinyTest: a shallow embedding of \<open>tiny_test.hpp\<close>\<close>

text \<open>
  The header defines the classes \<open>Test\<close>, \<open>SimpleTest\<close>, \<open>PrettyTest\<close>, \<open>TimedTest\<close> and
  \<open>TestGroup\<close>. Everything they do beyond returning a value is made explicit here:
  \<^item> what is written to \<open>std::cout\<close> is a list of messages, one constructor per output
    statement of the header (the text formatting itself is not modelled);
  \<^item> \<open>std::clock()\<close> reads the next value of a sequence of readings given by the platform;
  \<^item> a C++ exception leaving a function is the \<open>Inl\<close> branch of its result;
  \<^item> a member function takes the object's state and returns the updated one.
\<close>

subsection \<open>Exceptions, source locations, doubles\<close>

text \<open>
  \<open>Test::operator()\<close> has two handlers: \<open>catch (std::exception&)\<close>, which prints
  \<open>what()\<close>, and \<open>catch (...)\<close>. An exception is therefore either one derived from
  \<open>std::exception\<close>, carrying its message, or anything else.
\<close>

datatype exn = StdException string | OtherException

record source_location =
  file_name :: string
  line :: nat
  column :: nat

text \<open>
  The values of a \<open>double\<close>. Comparisons are those of IEEE 754 (every comparison with NaN
  is false). An arithmetic operation on finite values is the exact operation on the reals
  followed by rounding to a double: the rounding \<open>r\<close> is a parameter of the operations
  that round (the platform gives it, see below). Overflow to infinity and the sign of
  zero are not modelled.
\<close>

datatype double = Finite real | PosInf | NegInf | NaN

fun dless :: "double \<Rightarrow> double \<Rightarrow> bool" where
  "dless NaN _ = False"
| "dless _ NaN = False"
| "dless (Finite a) (Finite b) = (a < b)"
| "dless NegInf NegInf = False"
| "dless NegInf _ = True"
| "dless _ NegInf = False"
| "dless PosInf _ = False"
| "dless _ PosInf = True"

fun dle :: "double \<Rightarrow> double \<Rightarrow> bool" where
  "dle NaN _ = False"
| "dle _ NaN = False"
| "dle (Finite a) (Finite b) = (a \<le> b)"
| "dle NegInf _ = True"
| "dle _ PosInf = True"
| "dle _ _ = False"

fun dsub :: "(real \<Rightarrow> real) \<Rightarrow> double \<Rightarrow> double \<Rightarrow> double" where
  "dsub r NaN _ = NaN"
| "dsub r _ NaN = NaN"
| "dsub r (Finite a) (Finite b) = Finite (r (a - b))"
| "dsub r PosInf PosInf = NaN"
| "dsub r NegInf NegInf = NaN"
| "dsub r PosInf _ = PosInf"
| "dsub r NegInf _ = NegInf"
| "dsub r _ PosInf = NegInf"
| "dsub r _ NegInf = PosInf"

fun dabs :: "double \<Rightarrow> double" where
  "dabs (Finite a) = Finite \<bar>a\<bar>"
| "dabs PosInf = PosInf"
| "dabs NegInf = PosInf"
| "dabs NaN = NaN"

fun dneg :: "double \<Rightarrow> double" where
  "dneg (Finite a) = Finite (- a)"
| "dneg PosInf = NegInf"
| "dneg NegInf = PosInf"
| "dneg NaN = NaN"

fun dmul :: "(real \<Rightarrow> real) \<Rightarrow> double \<Rightarrow> double \<Rightarrow> double" where
  "dmul r NaN _ = NaN"
| "dmul r _ NaN = NaN"
| "dmul r (Finite a) (Finite b) = Finite (r (a * b))"
| "dmul r (Finite a) y = (if a = 0 then NaN else if 0 < a then y else dneg y)"
| "dmul r x (Finite b) = (if b = 0 then NaN else if 0 < b then x else dneg x)"
| "dmul r x y = (if x = y then PosInf else NegInf)"

fun ddiv :: "(real \<Rightarrow> real) \<Rightarrow> double \<Rightarrow> double \<Rightarrow> double" where
  "ddiv r NaN _ = NaN"
| "ddiv r _ NaN = NaN"
| "ddiv r (Finite a) (Finite b) =
     (if b = 0 then (if a = 0 then NaN else if 0 < a then PosInf else NegInf)
      else Finite (r (a / b)))"
| "ddiv r (Finite a) _ = Finite 0"
| "ddiv r x (Finite b) = (if 0 \<le> b then x else dneg x)"
| "ddiv r _ _ = NaN"

subsection \<open>The platform and the world\<close>

text \<open>
  \<open>CLOCKS_PER_SEC\<close> is a macro of \<open><ctime>\<close> and \<open>std::clock()\<close> a function of the C
  library: both are parameters. \<open>clock_reading P n\<close> is what the \<open>n\<close>-th call of
  \<open>std::clock()\<close> returns. \<open>round_double P x\<close> is the double nearest to the real number \<open>x\<close>,
  as the platform's floating-point unit rounds; nothing is assumed about it.
\<close>

record platform =
  CLOCKS_PER_SEC :: int
  clock_reading :: "nat \<Rightarrow> int"
  round_double :: "real \<Rightarrow> real"

text \<open>
  One constructor per output statement of the header; \<open>'v\<close> is the type of the operands of
  \<open>equals\<close>.
\<close>

datatype 'v message =
    TestStart string
  | CaughtException string
  | CaughtUnknown
  | Verdict bool
  | ConditionFalse source_location
  | NotEqual 'v 'v
  | FloatNotEqual double double double
  | FinishedIn double
  | SlowerThan double
  | RunningGroup string
  | GroupFailed
  | FailedCount nat nat

record 'v world =
  cout :: "'v message list"
  clock_calls :: nat

definition put :: "'v message \<Rightarrow> 'v world \<Rightarrow> 'v world" where
  "put m w = w\<lparr>cout := cout w @ [m]\<rparr>"

definition std_clock :: "platform \<Rightarrow> 'v world \<Rightarrow> int \<times> 'v world" where
  "std_clock P w = (clock_reading P (clock_calls w), w\<lparr>clock_calls := Suc (clock_calls w)\<rparr>)"

subsection \<open>Functors\<close>

text \<open>
  A functor is an object: the state it captured, and its call operator, which may change
  that state (the member \<open>f_\<close> is not const). A call returns the functor's result and leaves
  the functor in its new state.
\<close>

datatype ('c, 'r) Functor = Functor (captures: 'c) (body: "'c \<Rightarrow> 'r \<times> 'c")

definition invoke :: "('c, 'r) Functor \<Rightarrow> 'r \<times> ('c, 'r) Functor" where
  "invoke f = (case body f (captures f) of (r, c') \<Rightarrow> (r, Functor c' (body f)))"

text \<open>
  The functor of a \<open>SimpleTest\<close> returns a bool or throws. The functor of a \<open>PrettyTest\<close>
  returns nothing: what it does to the test object is the sequence of member functions it
  calls on it, and then it returns (\<open>None\<close>) or throws (\<open>Some e\<close>). Each member function
  returns the condition it was given, which the functor knows already, so the calls a
  functor makes do not depend on the test object.
\<close>

datatype 'v call =
    Check bool source_location
  | EqualsPrintable 'v 'v source_location
  | Equals 'v 'v source_location
  | FloatEquals double double double source_location
  | Fail source_location

type_synonym 'v script = "'v call list \<times> exn option"

subsection \<open>\<open>PrettyTest\<close>: the checks\<close>

text \<open>
  The member functions of \<open>PrettyTest\<close> (the build with \<open>std::source_location\<close>). Each works
  on the member \<open>result_\<close> and on \<open>std::cout\<close>, and returns a bool.
\<close>

definition check :: "bool \<Rightarrow> source_location \<Rightarrow> bool \<times> 'v world \<Rightarrow> bool \<times> (bool \<times> 'v world)" where
  "check condition location s =
     (case s of (res, w) \<Rightarrow>
        (condition,
         (res \<and> condition,
          if condition = False then put (ConditionFalse location) w else w)))"

definition equals_printable ::
    "'v \<Rightarrow> 'v \<Rightarrow> source_location \<Rightarrow> bool \<times> 'v world \<Rightarrow> bool \<times> (bool \<times> 'v world)" where
  "equals_printable first second location s =
     (case check (first = second) location s of (result, (res, w)) \<Rightarrow>
        if \<not> result then (result, (res, put (NotEqual first second) w))
        else (result, (res, w)))"

definition equals ::
    "'v \<Rightarrow> 'v \<Rightarrow> source_location \<Rightarrow> bool \<times> 'v world \<Rightarrow> bool \<times> (bool \<times> 'v world)" where
  "equals first second location s = check (first = second) location s"

definition float_equals ::
    "platform \<Rightarrow> double \<Rightarrow> double \<Rightarrow> double \<Rightarrow> source_location \<Rightarrow> bool \<times> 'v world \<Rightarrow>
     bool \<times> (bool \<times> 'v world)" where
  "float_equals P x y error location s =
     (case check (dless (dabs (dsub (round_double P) x y)) error) location s of
        (result, (res, w)) \<Rightarrow>
        if \<not> result then (result, (res, put (FloatNotEqual x y error) w))
        else (result, (res, w)))"

definition fail :: "source_location \<Rightarrow> bool \<times> 'v world \<Rightarrow> bool \<times> (bool \<times> 'v world)" where
  "fail location s = check False location s"

text \<open>The functor's call, dispatched to the member function it names.\<close>

fun perform :: "platform \<Rightarrow> 'v call \<Rightarrow> bool \<times> 'v world \<Rightarrow> bool \<times> (bool \<times> 'v world)" where
  "perform P (Check condition location) s = check condition location s"
| "perform P (EqualsPrintable first second location) s =
     equals_printable first second location s"
| "perform P (Equals first second location) s = equals first second location s"
| "perform P (FloatEquals x y error location) s = float_equals P x y error location s"
| "perform P (Fail location) s = fail location s"

fun run_calls :: "platform \<Rightarrow> 'v call list \<Rightarrow> bool \<times> 'v world \<Rightarrow> bool \<times> 'v world" where
  "run_calls P [] s = s"
| "run_calls P (c # cs) s = run_calls P cs (snd (perform P c s))"

subsection \<open>The test classes\<close>

text \<open>
  \<open>SimpleTest\<close> has the members \<open>name_\<close> and \<open>f_\<close>; \<open>PrettyTest\<close> has \<open>name_\<close>, \<open>f_\<close> and
  \<open>result_\<close>; \<open>TimedTest<ActualTest, Functor>\<close> derives from \<open>ActualTest<Functor>\<close> and adds
  \<open>max_runtime_\<close>: the object is its base class object and the limit. (The header's
  template cannot wrap a \<open>TimedTest\<close> in a \<open>TimedTest\<close>; the datatype can, and what is proved
  for all tests holds for those of the header. A name cannot end
  with an underscore here: \<open>name_\<close> is \<open>test_name\<close> and \<open>group_name\<close>, \<open>tests_\<close> is \<open>tests\<close>.)
\<close>

datatype ('c, 'v) test =
    SimpleTest string "('c, exn + bool) Functor"
  | PrettyTest string "('c, 'v script) Functor" bool
  | TimedTest double "('c, 'v) test"

fun test_name :: "('c, 'v) test \<Rightarrow> string" where
  "test_name (SimpleTest n f) = n"
| "test_name (PrettyTest n f res) = n"
| "test_name (TimedTest limit p) = test_name p"

text \<open>
  The constructors. \<open>PrettyTest\<close> initialises \<open>result_\<close> with \<open>true\<close> (its default member
  initialiser); a \<open>TimedTest\<close> built without a limit has
  \<open>max_runtime_ = std::numeric_limits<double>::infinity()\<close>; \<open>make_timed_test\<close> with a limit
  in microseconds multiplies the count by \<open>1e-3\<close>.
\<close>

definition make_test_Simple :: "string \<Rightarrow> ('c, exn + bool) Functor \<Rightarrow> ('c, 'v) test" where
  "make_test_Simple name f = SimpleTest name f"

definition make_test_Pretty :: "string \<Rightarrow> ('c, 'v script) Functor \<Rightarrow> ('c, 'v) test" where
  "make_test_Pretty name f = PrettyTest name f True"

definition make_timed_test :: "('c, 'v) test \<Rightarrow> ('c, 'v) test" where
  "make_timed_test actual = TimedTest PosInf actual"

definition make_timed_test_limit :: "platform \<Rightarrow> int \<Rightarrow> ('c, 'v) test \<Rightarrow> ('c, 'v) test" where
  "make_timed_test_limit P time_limit actual =
     TimedTest (dmul (round_double P) (Finite (round_double P (of_int time_limit)))
                  (Finite (round_double P (1 / 1000)))) actual"

text \<open>
  Line 209: \<open>double(finish - start) * 1000.0 / CLOCKS_PER_SEC\<close>. The conversion of the
  difference, the product, the conversion of \<open>CLOCKS_PER_SEC\<close> and the quotient each round;
  \<open>1000.0\<close> is a double.
\<close>

definition execution_ms :: "platform \<Rightarrow> int \<Rightarrow> int \<Rightarrow> double" where
  "execution_ms P start finish =
     ddiv (round_double P)
       (dmul (round_double P) (Finite (round_double P (of_int (finish - start)))) (Finite 1000))
       (Finite (round_double P (of_int (CLOCKS_PER_SEC P))))"

text \<open>
  \<open>doTest\<close>, the virtual member function. An exception thrown by the functor leaves
  \<open>PrettyTest::doTest\<close> after the calls the functor made before it, and leaves
  \<open>TimedTest::doTest\<close> at the call of \<open>Parent::doTest()\<close>.
\<close>

fun doTest :: "platform \<Rightarrow> ('c, 'v) test \<Rightarrow> 'v world \<Rightarrow> (exn + bool) \<times> ('c, 'v) test \<times> 'v world" where
  "doTest P (SimpleTest n f) w =
     (case invoke f of (r, f') \<Rightarrow> (r, SimpleTest n f', w))"
| "doTest P (PrettyTest n f res) w =
     (case invoke f of ((calls, thrown), f') \<Rightarrow>
        (case run_calls P calls (res, w) of (res', w') \<Rightarrow>
           (case thrown of
              Some e \<Rightarrow> (Inl e, PrettyTest n f' res', w')
            | None \<Rightarrow> (Inr res', PrettyTest n f' res', w'))))"
| "doTest P (TimedTest limit p) w =
     (case std_clock P w of (start, w1) \<Rightarrow>
        (case doTest P p w1 of
           (Inl e, p', w2) \<Rightarrow> (Inl e, TimedTest limit p', w2)
         | (Inr result, p', w2) \<Rightarrow>
             (case std_clock P w2 of (finish, w3) \<Rightarrow>
                let ms = execution_ms P start finish;
                    w4 = put (FinishedIn ms) w3
                in if dless limit ms
                   then (Inr False, TimedTest limit p', put (SlowerThan limit) w4)
                   else (Inr result, TimedTest limit p', w4))))"

text \<open>
  \<open>Test::operator()\<close>. Its result type has an \<open>Inl\<close> branch like every other function
  here, so that "no exception leaves it" is a statement to prove.
\<close>

definition Test_call :: "platform \<Rightarrow> ('c, 'v) test \<Rightarrow> 'v world \<Rightarrow> (exn + bool) \<times> ('c, 'v) test \<times> 'v world" where
  "Test_call P t w =
     (let w1 = put (TestStart (test_name t)) w;
          res = False
      in case doTest P t w1 of
           (Inr r, t', w2) \<Rightarrow> (Inr r, t', put (Verdict r) w2)
         | (Inl (StdException what), t', w2) \<Rightarrow>
             (Inr res, t', put (Verdict res) (put (CaughtException what) w2))
         | (Inl OtherException, t', w2) \<Rightarrow>
             (Inr res, t', put (Verdict res) (put CaughtUnknown w2)))"

subsection \<open>\<open>TestGroup\<close>\<close>

datatype ('c, 'v) TestGroup = TestGroup (group_name: string) (tests: "('c, 'v) test list")

definition add :: "('c, 'v) test \<Rightarrow> ('c, 'v) TestGroup \<Rightarrow> ('c, 'v) TestGroup" where
  "add t g = TestGroup (group_name g) (tests g @ [t])"

text \<open>
  The two constructors. The variadic one delegates to the constructor for the name and
  the other tests, and then, in its body, adds the first test.
\<close>

definition TestGroup_name :: "string \<Rightarrow> ('c, 'v) TestGroup" where
  "TestGroup_name name = TestGroup name []"

fun TestGroup_variadic :: "string \<Rightarrow> ('c, 'v) test list \<Rightarrow> ('c, 'v) TestGroup" where
  "TestGroup_variadic name [] = TestGroup_name name"
| "TestGroup_variadic name (first # other) = add first (TestGroup_variadic name other)"

text \<open>
  The loop of \<open>TestGroup::run\<close>. \<open>errors\<close> is a \<open>size_t\<close>; it is incremented at most once per
  element of the vector, whose size is below \<open>2^64\<close>, so it does not wrap and is a \<open>nat\<close>
  here. An exception leaving a test's \<open>operator()\<close> would leave the loop and \<open>run\<close>.
\<close>

fun run_loop :: "platform \<Rightarrow> ('c, 'v) test list \<Rightarrow> nat \<Rightarrow> 'v world \<Rightarrow> (exn + nat) \<times> ('c, 'v) test list \<times> 'v world" where
  "run_loop P [] errors w = (Inr errors, [], w)"
| "run_loop P (t # ts) errors w =
     (case Test_call P t w of
        (Inl e, t', w') \<Rightarrow> (Inl e, t' # ts, w')
      | (Inr result, t', w') \<Rightarrow>
          (case run_loop P ts (if \<not> result then errors + 1 else errors) w' of
             (r, ts', w'') \<Rightarrow> (r, t' # ts', w'')))"

definition run :: "platform \<Rightarrow> ('c, 'v) TestGroup \<Rightarrow> 'v world \<Rightarrow> (exn + bool) \<times> ('c, 'v) TestGroup \<times> 'v world" where
  "run P g w =
     (let w1 = put (RunningGroup (group_name g)) w
      in case run_loop P (tests g) 0 w1 of
           (Inl e, ts', w2) \<Rightarrow> (Inl e, TestGroup (group_name g) ts', w2)
         | (Inr errors, ts', w2) \<Rightarrow>
             let result = (errors = 0)
             in if \<not> result
                then (Inr result, TestGroup (group_name g) ts',
                      put (FailedCount errors (length (tests g))) (put GroupFailed w2))
                else (Inr result, TestGroup (group_name g) ts', w2))"

subsection \<open>Notions used to state the properties\<close>

text \<open>
  The boolean value of one check: the condition the member function passes to \<open>check\<close>.
\<close>

fun call_value :: "platform \<Rightarrow> 'v call \<Rightarrow> bool" where
  "call_value P (Check condition location) = condition"
| "call_value P (EqualsPrintable first second location) = (first = second)"
| "call_value P (Equals first second location) = (first = second)"
| "call_value P (FloatEquals x y error location) =
     dless (dabs (dsub (round_double P) x y)) error"
| "call_value P (Fail location) = False"

text \<open>What was written to \<open>std::cout\<close> between the world \<open>w\<close> and the later world \<open>w'\<close>.\<close>

definition printed :: "'v world \<Rightarrow> 'v world \<Rightarrow> 'v message list" where
  "printed w w' = drop (length (cout w)) (cout w')"

text \<open>The exception, if any, that the functor of a test throws when it is called next.\<close>

fun thrown :: "('c, 'v) test \<Rightarrow> exn option" where
  "thrown (SimpleTest n f) = (case fst (invoke f) of Inl e \<Rightarrow> Some e | Inr b \<Rightarrow> None)"
| "thrown (PrettyTest n f res) = snd (fst (invoke f))"
| "thrown (TimedTest limit p) = thrown p"

text \<open>The message \<open>Test::operator()\<close> prints in the handler that catches \<open>e\<close>.\<close>

fun caught :: "exn \<Rightarrow> 'v message" where
  "caught (StdException what) = CaughtException what"
| "caught OtherException = CaughtUnknown"

text \<open>
  Kinds of messages: those of the checks, those of \<open>TimedTest::doTest\<close>, those a test can
  print between its first line and its verdict, the first line of a test, and the lines
  of \<open>TestGroup::run\<close>.
\<close>

fun is_check_message :: "'v message \<Rightarrow> bool" where
  "is_check_message (ConditionFalse l) = True"
| "is_check_message (NotEqual a b) = True"
| "is_check_message (FloatNotEqual x y e) = True"
| "is_check_message _ = False"

fun is_timing_message :: "'v message \<Rightarrow> bool" where
  "is_timing_message (FinishedIn ms) = True"
| "is_timing_message (SlowerThan ms) = True"
| "is_timing_message _ = False"

fun is_diagnostic :: "'v message \<Rightarrow> bool" where
  "is_diagnostic (CaughtException what) = True"
| "is_diagnostic CaughtUnknown = True"
| "is_diagnostic m = (is_check_message m \<or> is_timing_message m)"

fun is_TestStart :: "'v message \<Rightarrow> bool" where
  "is_TestStart (TestStart n) = True"
| "is_TestStart _ = False"

fun is_group_message :: "'v message \<Rightarrow> bool" where
  "is_group_message (RunningGroup n) = True"
| "is_group_message GroupFailed = True"
| "is_group_message (FailedCount k n) = True"
| "is_group_message _ = False"

fun timed :: "('c, 'v) test \<Rightarrow> bool" where
  "timed (TimedTest limit p) = True"
| "timed _ = False"

text \<open>
  What \<open>operator()\<close> of each test of a list returns when the tests are called one after the
  other, and the number of those that returned \<open>false\<close>.
\<close>

fun outcomes :: "platform \<Rightarrow> ('c, 'v) test list \<Rightarrow> 'v world \<Rightarrow> (exn + bool) list" where
  "outcomes P [] w = []"
| "outcomes P (t # ts) w = (case Test_call P t w of (r, t', w') \<Rightarrow> r # outcomes P ts w')"

definition failed_count :: "platform \<Rightarrow> ('c, 'v) test list \<Rightarrow> 'v world \<Rightarrow> nat" where
  "failed_count P ts w = length (filter (\<lambda>r. r = Inr False) (outcomes P ts w))"

text \<open>
  A test that does the same at every execution: a call leaves the captured state of its
  functor as it was, and a time limit, if there is one, is the default (infinite) one.
\<close>

fun repeatable :: "('c, 'v) test \<Rightarrow> bool" where
  "repeatable (SimpleTest n f) = (snd (body f (captures f)) = captures f)"
| "repeatable (PrettyTest n f res) = (snd (body f (captures f)) = captures f)"
| "repeatable (TimedTest limit p) = (limit = PosInf \<and> repeatable p)"

subsection \<open>Examples\<close>

text \<open>
  A platform whose clock starts at 700 and advances by 2000 ticks between two readings,
  at 1000000 ticks per second (2 ms), an empty world, and tests of \<open>example/main.cpp\<close>.
  Every number the examples compute with is a double, so rounding leaves it as it is.
\<close>

definition example_platform :: platform where
  "example_platform =
     \<lparr>CLOCKS_PER_SEC = 1000000, clock_reading = (\<lambda>n. 2000 * int n + 700),
      round_double = (\<lambda>x. x)\<rparr>"

definition empty_world :: "string world" where
  "empty_world = \<lparr>cout = [], clock_calls = 0\<rparr>"

definition example_location :: source_location where
  "example_location = \<lparr>file_name = ''example/main.cpp'', line = 72, column = 23\<rparr>"

definition math_works :: "(nat, string) test" where
  "math_works = make_test_Simple ''math works'' (Functor 0 (\<lambda>c. (Inr ((2 + 2 :: int) = 4), c)))"

definition exception_test :: "(nat, string) test" where
  "exception_test =
     make_test_Simple ''exception'' (Functor 0 (\<lambda>c. (Inl (StdException ''this is expected''), c)))"

definition checks_tft :: "(nat, string script) Functor" where
  "checks_tft =
     Functor 0 (\<lambda>c. (([Check True example_location, Check False example_location,
                        Check True example_location], None), c))"

definition checks_ftt :: "(nat, string script) Functor" where
  "checks_ftt =
     Functor 0 (\<lambda>c. (([Check False example_location, Check True example_location,
                        Check True example_location], None), c))"

text \<open>A test that throws something that is not a \<open>std::exception\<close>.\<close>

definition unknown_exception_test :: "(nat, string) test" where
  "unknown_exception_test = make_test_Simple ''throws 42'' (Functor 0 (\<lambda>c. (Inl OtherException, c)))"

text \<open>
  A functor with a counter, as a lambda with a mutable capture: its check fails at the
  first call and passes at every later one.
\<close>

definition flaky :: "(nat, string script) Functor" where
  "flaky = Functor 0 (\<lambda>c. (([Check (c \<noteq> 0) example_location], None), Suc c))"

text \<open>\<open>TestGroup("test group 1", math works, exception)\<close> of \<open>example/main.cpp\<close>.\<close>

definition group1 :: "(nat, string) TestGroup" where
  "group1 = TestGroup_variadic ''test group 1'' [math_works, exception_test]"

section \<open>Properties\<close>

subsection \<open>Basic facts\<close>

lemma doTest_Timed_Inl:
  "doTest P p (snd (std_clock P w)) = (Inl e, p', w2) \<Longrightarrow>
   doTest P (TimedTest limit p) w = (Inl e, TimedTest limit p', w2)"
  by (cases "std_clock P w") simp

lemma doTest_Timed_Inr:
  "doTest P p (snd (std_clock P w)) = (Inr result, p', w2) \<Longrightarrow>
   doTest P (TimedTest limit p) w =
     (let ms = execution_ms P (fst (std_clock P w)) (fst (std_clock P w2));
          w4 = put (FinishedIn ms) (snd (std_clock P w2))
      in if dless limit ms
         then (Inr False, TimedTest limit p', put (SlowerThan limit) w4)
         else (Inr result, TimedTest limit p', w4))"
  by (cases "std_clock P w"; cases "std_clock P w2") simp

lemma perform_returns: "fst (perform P c s) = call_value P c"
  by (cases c; cases s)
     (simp_all add: check_def equals_printable_def equals_def float_equals_def fail_def)

lemma perform_result: "fst (snd (perform P c s)) = (fst s \<and> call_value P c)"
  by (cases c; cases s)
     (simp_all add: check_def equals_printable_def equals_def float_equals_def fail_def)

lemma run_calls_result: "fst (run_calls P cs s) = (fst s \<and> list_all (call_value P) cs)"
  by (induction cs arbitrary: s) (auto simp: perform_result)

lemma foldl_conj: "foldl (\<and>) b (map f xs) = (b \<and> list_all f xs)"
  by (induction xs arbitrary: b) auto

lemma list_all_mset: "mset xs = mset ys \<Longrightarrow> list_all f xs = list_all f ys"
  by (metis list_all_iff set_mset_mset)

lemma doTest_Pretty_normal:
  assumes "body f (captures f) = ((cs, None), c')"
  shows "doTest P (PrettyTest n f res) w =
           (Inr (res \<and> list_all (call_value P) cs),
            PrettyTest n (Functor c' (body f)) (res \<and> list_all (call_value P) cs),
            snd (run_calls P cs (res, w)))"
  using assms run_calls_result[of P cs "(res, w)"]
  by (auto simp: invoke_def split: prod.splits)

subsection \<open>What is printed\<close>

lemma printed_append: "cout w' = cout w @ ms \<Longrightarrow> printed w w' = ms"
  by (simp add: printed_def)

lemma cout_put: "cout (put m w) = cout w @ [m]"
  by (simp add: put_def)

lemma cout_std_clock: "cout (snd (std_clock P w)) = cout w"
  by (simp add: std_clock_def)

lemma perform_cout:
  "\<exists>ms. cout (snd (snd (perform P c s))) = cout (snd s) @ ms \<and> list_all is_check_message ms"
  by (cases c; cases s)
     (auto simp: check_def equals_printable_def equals_def float_equals_def fail_def cout_put)

lemma run_calls_cout:
  "\<exists>ms. cout (snd (run_calls P cs s)) = cout (snd s) @ ms \<and> list_all is_check_message ms"
proof (induction cs arbitrary: s)
  case Nil
  show ?case by simp
next
  case (Cons c cs)
  from perform_cout[of P c s] obtain ms1 where
    1: "cout (snd (snd (perform P c s))) = cout (snd s) @ ms1" "list_all is_check_message ms1"
    by blast
  from Cons[of "snd (perform P c s)"] obtain ms2 where
    2: "cout (snd (run_calls P cs (snd (perform P c s)))) = cout (snd (snd (perform P c s))) @ ms2"
       "list_all is_check_message ms2"
    by blast
  from 1 2 have "cout (snd (run_calls P (c # cs) s)) = cout (snd s) @ (ms1 @ ms2)
      \<and> list_all is_check_message (ms1 @ ms2)"
    by simp
  then show ?case by blast
qed

lemma check_is_diagnostic: "is_check_message m \<Longrightarrow> is_diagnostic m"
  by (cases m) auto

lemma list_all_check_diagnostic: "list_all is_check_message ms \<Longrightarrow> list_all is_diagnostic ms"
  by (induction ms) (auto simp: check_is_diagnostic)

lemma doTest_untimed_cout:
  assumes "\<not> timed t"
  shows "\<exists>ms. cout (snd (snd (doTest P t w))) = cout w @ ms \<and> list_all is_check_message ms"
proof (cases t)
  case (SimpleTest n f)
  then show ?thesis by (auto split: prod.splits)
next
  case (PrettyTest n f res)
  obtain cs th f' where i: "invoke f = ((cs, th), f')"
    by (cases "invoke f") auto
  from run_calls_cout[of P cs "(res, w)"] obtain ms where
    "cout (snd (run_calls P cs (res, w))) = cout w @ ms" "list_all is_check_message ms"
    by auto
  with PrettyTest i show ?thesis
    by (auto split: prod.splits option.splits)
next
  case (TimedTest limit p)
  with assms show ?thesis by simp
qed

lemma doTest_cout:
  "\<exists>ms. cout (snd (snd (doTest P t w))) = cout w @ ms \<and> list_all is_diagnostic ms"
proof (induction t arbitrary: w)
  case (SimpleTest n f)
  from doTest_untimed_cout[of "SimpleTest n f" P w] show ?case
    using list_all_check_diagnostic by fastforce
next
  case (PrettyTest n f res)
  from doTest_untimed_cout[of "PrettyTest n f res" P w] show ?case
    using list_all_check_diagnostic by fastforce
next
  case (TimedTest limit p)
  obtain r p' w2 where d: "doTest P p (snd (std_clock P w)) = (r, p', w2)"
    by (cases "doTest P p (snd (std_clock P w))") auto
  from TimedTest.IH[of "snd (std_clock P w)"] d obtain ms where
    ms: "cout w2 = cout w @ ms" "list_all is_diagnostic ms"
    by (auto simp: cout_std_clock)
  show ?case
  proof (cases r)
    case (Inl e)
    with d ms show ?thesis
      by (simp add: doTest_Timed_Inl del: doTest.simps)
  next
    case (Inr result)
    with d ms show ?thesis
      by (simp add: doTest_Timed_Inr Let_def cout_put cout_std_clock del: doTest.simps)
  qed
qed

subsection \<open>Exceptions\<close>

lemma doTest_thrown: "thrown t = Some e \<Longrightarrow> fst (doTest P t w) = Inl e"
proof (induction t arbitrary: w)
  case (SimpleTest n f)
  then show ?case
    by (auto simp: invoke_def split: prod.splits sum.splits)
next
  case (PrettyTest n f res)
  then show ?case
    by (auto simp: invoke_def split: prod.splits)
next
  case (TimedTest limit p)
  obtain r p' w2 where d: "doTest P p (snd (std_clock P w)) = (r, p', w2)"
    by (cases "doTest P p (snd (std_clock P w))") auto
  from TimedTest.IH[of "snd (std_clock P w)"] TimedTest.prems d have "r = Inl e"
    by simp
  with d show ?case
    by (simp add: doTest_Timed_Inl del: doTest.simps)
qed

lemma Test_call_Inr: "\<exists>b. fst (Test_call P t w) = Inr b"
  by (auto simp: Test_call_def split: prod.splits sum.splits exn.splits)

lemma Test_call_thrown:
  assumes "thrown t = Some e"
  shows "fst (Test_call P t w) = Inr False"
    and "\<exists>ms. printed w (snd (snd (Test_call P t w))) =
           TestStart (test_name t) # ms @ [caught e, Verdict False]"
proof -
  let ?w1 = "put (TestStart (test_name t)) w"
  obtain t' w2 where d: "doTest P t ?w1 = (Inl e, t', w2)"
    using doTest_thrown[OF assms, of P ?w1] by (cases "doTest P t ?w1") auto
  from doTest_cout[of P t ?w1] d obtain ms where
    ms: "cout w2 = cout w @ TestStart (test_name t) # ms"
    by (auto simp: cout_put)
  from d show "fst (Test_call P t w) = Inr False"
    by (cases e) (simp_all add: Test_call_def)
  from d ms have "cout (snd (snd (Test_call P t w))) =
      cout w @ (TestStart (test_name t) # ms @ [caught e, Verdict False])"
    by (cases e) (simp_all add: Test_call_def cout_put)
  from printed_append[OF this]
  show "\<exists>ms. printed w (snd (snd (Test_call P t w))) =
           TestStart (test_name t) # ms @ [caught e, Verdict False]"
    by blast
qed

lemma run_loop_Inr: "\<exists>k. fst (run_loop P ts errors w) = Inr k"
proof (induction ts arbitrary: errors w)
  case Nil
  show ?case by simp
next
  case (Cons t ts)
  obtain r t' w' where tc: "Test_call P t w = (r, t', w')"
    by (cases "Test_call P t w") auto
  with Test_call_Inr[of P t w] obtain b where r: "r = Inr b" by auto
  from Cons[of "if \<not> b then errors + 1 else errors" w'] tc r show ?case
    by (auto split: prod.splits)
qed

lemma run_Inr: "\<exists>b. fst (run P g w) = Inr b"
  using run_loop_Inr[of P "tests g" 0 "put (RunningGroup (group_name g)) w"]
  by (auto simp: run_def Let_def split: prod.splits sum.splits)

subsection \<open>The loop of a group\<close>

lemma Test_call_cout:
  "\<exists>b ms. fst (Test_call P t w) = Inr b
     \<and> cout (snd (snd (Test_call P t w))) = cout w @ TestStart (test_name t) # ms @ [Verdict b]
     \<and> list_all is_diagnostic ms"
proof -
  let ?w1 = "put (TestStart (test_name t)) w"
  obtain r t' w2 where d: "doTest P t ?w1 = (r, t', w2)"
    by (cases "doTest P t ?w1") auto
  from doTest_cout[of P t ?w1] d obtain ms where
    ms: "cout w2 = cout w @ TestStart (test_name t) # ms" "list_all is_diagnostic ms"
    by (auto simp: cout_put)
  show ?thesis
  proof (cases r)
    case (Inr b)
    with d ms show ?thesis
      by (auto simp: Test_call_def cout_put)
  next
    case (Inl e)
    show ?thesis
    proof (cases e)
      case (StdException what)
      with Inl d ms have "fst (Test_call P t w) = Inr False
        \<and> cout (snd (snd (Test_call P t w)))
            = cout w @ TestStart (test_name t) # (ms @ [CaughtException what]) @ [Verdict False]
        \<and> list_all is_diagnostic (ms @ [CaughtException what])"
        by (simp add: Test_call_def cout_put)
      then show ?thesis by blast
    next
      case OtherException
      with Inl d ms have "fst (Test_call P t w) = Inr False
        \<and> cout (snd (snd (Test_call P t w)))
            = cout w @ TestStart (test_name t) # (ms @ [CaughtUnknown]) @ [Verdict False]
        \<and> list_all is_diagnostic (ms @ [CaughtUnknown])"
        by (simp add: Test_call_def cout_put)
      then show ?thesis by blast
    qed
  qed
qed

lemma diagnostic_not_TestStart: "list_all is_diagnostic ms \<Longrightarrow> filter is_TestStart ms = []"
proof (induction ms)
  case Nil
  show ?case by simp
next
  case (Cons m ms)
  then show ?case by (cases m) auto
qed

lemma diagnostic_not_group: "list_all is_diagnostic ms \<Longrightarrow> filter is_group_message ms = []"
proof (induction ms)
  case Nil
  show ?case by simp
next
  case (Cons m ms)
  then show ?case by (cases m) auto
qed

lemma run_loop_spec:
  "fst (run_loop P ts errors w) = Inr (errors + failed_count P ts w)
   \<and> length (fst (snd (run_loop P ts errors w))) = length ts
   \<and> (\<exists>ms. cout (snd (snd (run_loop P ts errors w))) = cout w @ ms
         \<and> filter is_TestStart ms = map (\<lambda>t. TestStart (test_name t)) ts
         \<and> filter is_group_message ms = [])"
proof (induction ts arbitrary: errors w)
  case Nil
  show ?case by (simp add: failed_count_def)
next
  case (Cons t ts)
  obtain r t' w' where tc: "Test_call P t w = (r, t', w')"
    by (cases "Test_call P t w") auto
  from Test_call_cout[of P t w] tc obtain b ms1 where
    b: "r = Inr b" "cout w' = cout w @ TestStart (test_name t) # ms1 @ [Verdict b]"
       "list_all is_diagnostic ms1"
    by auto
  let ?e = "if \<not> b then errors + 1 else errors"
  from Cons[of ?e w'] obtain ms2 where
    ih: "fst (run_loop P ts ?e w') = Inr (?e + failed_count P ts w')"
        "length (fst (snd (run_loop P ts ?e w'))) = length ts"
        "cout (snd (snd (run_loop P ts ?e w'))) = cout w' @ ms2"
        "filter is_TestStart ms2 = map (\<lambda>t. TestStart (test_name t)) ts"
        "filter is_group_message ms2 = []"
    by blast
  have fc: "failed_count P (t # ts) w = (if \<not> b then 1 else 0) + failed_count P ts w'"
    using tc b(1) by (simp add: failed_count_def)
  have 1: "fst (run_loop P (t # ts) errors w) = Inr (errors + failed_count P (t # ts) w)"
    using tc b(1) ih(1) fc by (auto split: prod.splits)
  have 2: "length (fst (snd (run_loop P (t # ts) errors w))) = length (t # ts)"
    using tc b(1) ih(2) by (auto split: prod.splits)
  let ?ms = "TestStart (test_name t) # ms1 @ [Verdict b] @ ms2"
  have 3: "cout (snd (snd (run_loop P (t # ts) errors w))) = cout w @ ?ms"
    using tc b(1,2) ih(3) by (auto split: prod.splits)
  have 4: "filter is_TestStart ?ms = map (\<lambda>t. TestStart (test_name t)) (t # ts)"
    using ih(4) diagnostic_not_TestStart[OF b(3)] by simp
  have 5: "filter is_group_message ?ms = []"
    using ih(5) diagnostic_not_group[OF b(3)] by simp
  from 1 2 3 4 5 show ?case by blast
qed

lemma length_outcomes: "length (outcomes P ts w) = length ts"
  by (induction ts arbitrary: w) (auto split: prod.splits)

subsection \<open>Doubles, timing and construction\<close>

lemma execution_ms_Finite:
  "round_double P (of_int (CLOCKS_PER_SEC P)) \<noteq> 0 \<Longrightarrow>
   execution_ms P start finish =
     Finite (round_double P
       (round_double P (round_double P (of_int (finish - start)) * 1000) /
        round_double P (of_int (CLOCKS_PER_SEC P))))"
  by (simp add: execution_ms_def)

lemma dless_iff_not_dle: "a \<noteq> NaN \<Longrightarrow> b \<noteq> NaN \<Longrightarrow> dless a b = (\<not> dle b a)"
  by (cases a; cases b) auto

lemma dle_refl: "a \<noteq> NaN \<Longrightarrow> dle a a"
  by (cases a) auto

lemma dless_PosInf: "dless PosInf x = False"
  by (cases x) auto

lemma dless_irrefl: "dless a a = False"
  by (cases a) auto

lemma doTest_cout_le: "length (cout w) \<le> length (cout (snd (snd (doTest P t w))))"
  using doTest_cout[of P t w] by auto

lemma printed_extend:
  "length (cout w) \<le> length (cout w2) \<Longrightarrow> cout w' = cout w2 @ ms \<Longrightarrow>
   printed w w' = printed w w2 @ ms"
  by (simp add: printed_def)

lemma tests_TestGroup_variadic: "tests (TestGroup_variadic n ts) = rev ts"
  by (induction ts) (simp_all add: TestGroup_name_def add_def)

lemma group_name_TestGroup_variadic: "group_name (TestGroup_variadic n ts) = n"
  by (induction ts) (simp_all add: TestGroup_name_def add_def)

subsection \<open>Executing a test again\<close>

lemma invoke_unchanged:
  "snd (body f (captures f)) = captures f \<Longrightarrow> snd (invoke f) = f"
  by (cases f) (auto simp: invoke_def split: prod.splits)

lemma doTest_repeat:
  "repeatable t \<Longrightarrow>
   repeatable (fst (snd (doTest P t w)))
   \<and> fst (doTest P (fst (snd (doTest P t w))) w') = fst (doTest P t w)"
proof (induction t arbitrary: w w')
  case (SimpleTest n f)
  then show ?case
    using invoke_unchanged[of f] by (auto split: prod.splits)
next
  case (PrettyTest n f res)
  then have u: "snd (invoke f) = f"
    using invoke_unchanged[of f] by simp
  obtain cs th where i: "invoke f = ((cs, th), f)"
    using u by (cases "invoke f") auto
  have r1: "fst (run_calls P cs (res, w)) = (res \<and> list_all (call_value P) cs)"
    using run_calls_result[of P cs "(res, w)"] by simp
  have r2: "fst (run_calls P cs (res \<and> list_all (call_value P) cs, w'))
              = (res \<and> list_all (call_value P) cs)"
    using run_calls_result[of P cs "(res \<and> list_all (call_value P) cs, w')"] by auto
  from PrettyTest i r1 r2 show ?case
    by (cases th) (auto split: prod.splits)
next
  case (TimedTest limit p)
  then have lim: "limit = PosInf" and rp: "repeatable p" by simp_all
  obtain r p' w2 where d: "doTest P p (snd (std_clock P w)) = (r, p', w2)"
    by (cases "doTest P p (snd (std_clock P w))") auto
  from TimedTest.IH[OF rp, of "snd (std_clock P w)" "snd (std_clock P w')"] d
  have ih: "repeatable p'" "fst (doTest P p' (snd (std_clock P w'))) = r"
    by simp_all
  obtain p'' w3 where d2: "doTest P p' (snd (std_clock P w')) = (r, p'', w3)"
    using ih(2) by (cases "doTest P p' (snd (std_clock P w'))") auto
  show ?case
  proof (cases r)
    case (Inl e)
    with d d2 ih(1) lim show ?thesis
      using doTest_Timed_Inl[of P p w e p' w2 limit] doTest_Timed_Inl[of P p' w' e p'' w3 limit]
      by (simp del: doTest.simps)
  next
    case (Inr result)
    with d d2 ih(1) lim show ?thesis
      using doTest_Timed_Inr[of P p w result p' w2 limit]
        doTest_Timed_Inr[of P p' w' result p'' w3 limit]
      by (simp add: Let_def dless_PosInf del: doTest.simps)
  qed
qed

lemma Test_call_fst:
  "fst (Test_call P t w) =
     (case fst (doTest P t (put (TestStart (test_name t)) w)) of
        Inr r \<Rightarrow> Inr r | Inl e \<Rightarrow> Inr False)"
  by (auto simp: Test_call_def split: prod.splits sum.splits exn.splits)

lemma Test_call_test:
  "fst (snd (Test_call P t w)) = fst (snd (doTest P t (put (TestStart (test_name t)) w)))"
  by (auto simp: Test_call_def split: prod.splits sum.splits exn.splits)

lemma Test_call_repeat:
  "repeatable t \<Longrightarrow>
   repeatable (fst (snd (Test_call P t w)))
   \<and> fst (Test_call P (fst (snd (Test_call P t w))) w') = fst (Test_call P t w)"
  using doTest_repeat[of t P "put (TestStart (test_name t)) w"]
  by (simp add: Test_call_fst Test_call_test)

lemma run_loop_repeat:
  "list_all repeatable ts \<Longrightarrow>
   list_all repeatable (fst (snd (run_loop P ts errors w)))
   \<and> fst (run_loop P (fst (snd (run_loop P ts errors w))) errors w') = fst (run_loop P ts errors w)"
proof (induction ts arbitrary: errors w w')
  case Nil
  show ?case by simp
next
  case (Cons t ts)
  then have rt: "repeatable t" and rts: "list_all repeatable ts" by simp_all
  obtain r t' w1 where tc: "Test_call P t w = (r, t', w1)"
    by (cases "Test_call P t w") auto
  from Test_call_Inr[of P t w] tc obtain b where b: "r = Inr b" by auto
  obtain r2 t'' w1' where tc2: "Test_call P t' w' = (r2, t'', w1')"
    by (cases "Test_call P t' w'") auto
  from Test_call_repeat[OF rt, of P w w'] tc tc2 b
  have rep: "repeatable t'" "r2 = Inr b" by simp_all
  let ?e = "if \<not> b then errors + 1 else errors"
  from Cons.IH[OF rts, of ?e w1 w1']
  have ih: "list_all repeatable (fst (snd (run_loop P ts ?e w1)))"
    "fst (run_loop P (fst (snd (run_loop P ts ?e w1))) ?e w1') = fst (run_loop P ts ?e w1)"
    by simp_all
  from tc tc2 b rep ih show ?case
    by (auto split: prod.splits)
qed

lemma run_repeat:
  "list_all repeatable (tests g) \<Longrightarrow>
   list_all repeatable (tests (fst (snd (run P g w))))
   \<and> fst (run P (fst (snd (run P g w))) w') = fst (run P g w)"
proof -
  assume a: "list_all repeatable (tests g)"
  let ?w1 = "put (RunningGroup (group_name g)) w"
  obtain r ts' w2 where rl: "run_loop P (tests g) 0 ?w1 = (r, ts', w2)"
    by (cases "run_loop P (tests g) 0 ?w1") auto
  from run_loop_Inr[of P "tests g" 0 ?w1] rl obtain k where k: "r = Inr k" by auto
  have g': "fst (snd (run P g w)) = TestGroup (group_name g) ts'"
    using rl k by (simp add: run_def Let_def)
  from run_loop_repeat[OF a, of P 0 ?w1 "put (RunningGroup (group_name g)) w'"] rl
  have rep: "list_all repeatable ts'"
    "fst (run_loop P ts' 0 (put (RunningGroup (group_name g)) w')) = Inr k"
    using k by simp_all
  obtain ts'' w3 where rl2: "run_loop P ts' 0 (put (RunningGroup (group_name g)) w') = (Inr k, ts'', w3)"
    using rep(2) by (cases "run_loop P ts' 0 (put (RunningGroup (group_name g)) w')") auto
  have "fst (run P (TestGroup (group_name g) ts') w') = fst (run P g w)"
    using rl k rl2 by (simp add: run_def Let_def)
  with g' rep(1) show ?thesis by simp
qed

subsection \<open>The result of a \<open>PrettyTest\<close>\<close>

text \<open>
  C1 (as amended). When the functor of a \<open>PrettyTest\<close> issues the checks \<open>cs\<close> and returns,
  \<open>doTest\<close> returns the conjunction of \<open>result_\<close>, as it is when the execution starts, and
  the values of all the checks. The constructor leaves \<open>result_ = true\<close>, so for the test
  as constructed the result is the conjunction of the checks starting from \<open>true\<close>. A
  functor that issues the same checks in another order gets the same result.
\<close>

theorem PrettyTest_result_is_conjunction:
  assumes "body f (captures f) = ((cs, None), c')"
    and "body f2 (captures f2) = ((cs2, None), c2')"
    and "mset cs2 = mset cs"
  shows "fst (doTest P (PrettyTest n f res) w) = Inr (foldl (\<and>) res (map (call_value P) cs))
       \<and> fst (doTest P (make_test_Pretty n f) w) = Inr (foldl (\<and>) True (map (call_value P) cs))
       \<and> fst (doTest P (make_test_Pretty n2 f2) w2) = fst (doTest P (make_test_Pretty n f) w)"
  using assms(3) doTest_Pretty_normal[OF assms(1)] doTest_Pretty_normal[OF assms(2)]
  by (simp add: make_test_Pretty_def foldl_conj list_all_mset[of cs2 cs])

theorem PrettyTest_result_is_conjunction_witness:
  "fst (doTest example_platform (make_test_Pretty ''tft'' checks_tft) empty_world) = Inr False
   \<and> fst (doTest example_platform (make_test_Pretty ''ftt'' checks_ftt) empty_world) = Inr False
   \<and> fst (doTest example_platform (PrettyTest ''tft'' checks_tft False) empty_world) = Inr False"
  using PrettyTest_result_is_conjunction[of checks_tft
      "[Check True example_location, Check False example_location, Check True example_location]" 0
      checks_ftt
      "[Check False example_location, Check True example_location, Check True example_location]" 0
      example_platform "''tft''" False empty_world "''ftt''" empty_world]
  by (simp add: checks_tft_def checks_ftt_def)

text \<open>
  C1, the claim as stated, fails for a test that was executed before. The first execution
  of the test around \<open>flaky\<close> leaves \<open>result_ = false\<close>; in the second execution the functor
  issues one check, which passes, and returns, and \<open>doTest\<close> returns \<open>false\<close>, not the
  conjunction of that check starting from \<open>true\<close>.
\<close>

theorem executed_PrettyTest_starts_from_its_result:
  "fst (snd (doTest example_platform (make_test_Pretty ''flaky'' flaky) empty_world))
     = PrettyTest ''flaky'' (Functor 1 (body flaky)) False
   \<and> body flaky 1 = (([Check True example_location], None), 2)
   \<and> fst (doTest example_platform (PrettyTest ''flaky'' (Functor 1 (body flaky)) False)
            empty_world) = Inr False
   \<and> foldl (\<and>) True (map (call_value example_platform) [Check True example_location]) = True"
  by (simp add: flaky_def make_test_Pretty_def invoke_def check_def)

subsection \<open>Exceptions stop at \<open>Test::operator()\<close>\<close>

text \<open>
  C2. Whatever the kind of test (simple, pretty, timed), when its functor throws \<open>e\<close>, with
  a message or without one, the exception leaves \<open>doTest\<close>, is caught in \<open>operator()\<close>,
  which prints the handler's message and the verdict and returns \<open>false\<close>. No call of
  \<open>operator()\<close> and no \<open>TestGroup::run\<close> ends with an exception.
\<close>

theorem exception_caught_at_unit_boundary:
  "(thrown t = Some e \<longrightarrow>
      fst (doTest P t w) = Inl e
      \<and> fst (Test_call P t w) = Inr False
      \<and> (\<exists>ms. printed w (snd (snd (Test_call P t w))) =
                 TestStart (test_name t) # ms @ [caught e, Verdict False]))
   \<and> (\<exists>b. fst (Test_call P t w) = Inr b)
   \<and> (\<exists>b. fst (run P g w) = Inr b)"
  using doTest_thrown[of t e P w] Test_call_thrown(1)[of t e P w]
    Test_call_thrown(2)[of t e w P] Test_call_Inr[of P t w] run_Inr[of P g w]
  by blast

theorem exception_caught_at_unit_boundary_witness:
  "thrown (make_timed_test unknown_exception_test) = Some OtherException
   \<and> fst (doTest example_platform (make_timed_test unknown_exception_test) empty_world)
       = Inl OtherException
   \<and> fst (Test_call example_platform (make_timed_test unknown_exception_test) empty_world)
       = Inr False
   \<and> fst (run example_platform group1 empty_world) = Inr False"
  using exception_caught_at_unit_boundary[of "make_timed_test unknown_exception_test"
      OtherException example_platform empty_world group1]
  by (simp add: make_timed_test_def unknown_exception_test_def make_test_Simple_def invoke_def
      group1_def math_works_def exception_test_def TestGroup_name_def add_def run_def
      Test_call_def put_def Let_def)

subsection \<open>The result and the output of \<open>TestGroup::run\<close>\<close>

text \<open>
  C3. \<open>TestGroup::run\<close> calls every test of the group once, in the order of the vector
  (one first line per test, in that order, and one outcome per test), never ends early,
  and returns \<open>true\<close> exactly when the number of tests that returned \<open>false\<close> is zero. After
  the group's first line and the lines of the tests it prints the two summary lines, with
  the number of failed tests and the number of tests, exactly when that number is not
  zero.
\<close>

theorem TestGroup_run_counts_failures:
  "fst (run P g w) = Inr (failed_count P (tests g) (put (RunningGroup (group_name g)) w) = 0)
   \<and> length (outcomes P (tests g) (put (RunningGroup (group_name g)) w)) = length (tests g)
   \<and> length (tests (fst (snd (run P g w)))) = length (tests g)
   \<and> (\<exists>ms. printed w (snd (snd (run P g w))) =
          RunningGroup (group_name g) # ms @
          (if failed_count P (tests g) (put (RunningGroup (group_name g)) w) = 0 then []
           else [GroupFailed,
                 FailedCount (failed_count P (tests g) (put (RunningGroup (group_name g)) w))
                   (length (tests g))])
        \<and> filter is_TestStart ms = map (\<lambda>t. TestStart (test_name t)) (tests g)
        \<and> filter is_group_message ms = [])"
proof -
  let ?w1 = "put (RunningGroup (group_name g)) w"
  let ?k = "failed_count P (tests g) ?w1"
  obtain r ts' w2 where rl: "run_loop P (tests g) 0 ?w1 = (r, ts', w2)"
    by (cases "run_loop P (tests g) 0 ?w1") auto
  from run_loop_spec[of P "tests g" 0 ?w1] rl obtain ms where
    s: "r = Inr ?k" "length ts' = length (tests g)"
       "cout w2 = cout w @ RunningGroup (group_name g) # ms"
       "filter is_TestStart ms = map (\<lambda>t. TestStart (test_name t)) (tests g)"
       "filter is_group_message ms = []"
    by (auto simp: cout_put)
  have res: "fst (run P g w) = Inr (?k = 0)"
    using rl s(1) by (simp add: run_def Let_def)
  have len: "length (tests (fst (snd (run P g w)))) = length (tests g)"
    using rl s(1,2) by (simp add: run_def Let_def)
  have out: "cout (snd (snd (run P g w))) =
      cout w @ (RunningGroup (group_name g) # ms @
        (if ?k = 0 then [] else [GroupFailed, FailedCount ?k (length (tests g))]))"
    using rl s(1,3) by (simp add: run_def Let_def cout_put)
  from res len printed_append[OF out] s(4,5) length_outcomes[of P "tests g" ?w1]
  show ?thesis by blast
qed

theorem TestGroup_run_counts_failures_witness:
  "fst (run example_platform group1 empty_world) = Inr False
   \<and> failed_count example_platform (tests group1)
        (put (RunningGroup (group_name group1)) empty_world) = 1
   \<and> printed empty_world (snd (snd (run example_platform group1 empty_world))) =
       [RunningGroup ''test group 1'',
        TestStart ''exception'', CaughtException ''this is expected'', Verdict False,
        TestStart ''math works'', Verdict True,
        GroupFailed, FailedCount 1 2]"
  using TestGroup_run_counts_failures[of example_platform group1 empty_world]
  by (simp add: group1_def math_works_def exception_test_def make_test_Simple_def invoke_def
      TestGroup_name_def add_def run_def Test_call_def put_def Let_def printed_def
      failed_count_def empty_world_def)

text \<open>
  C10. A group built by the constructor that takes only a name has no tests: \<open>run\<close>
  returns \<open>true\<close> and prints the group's first line and nothing else.
\<close>

theorem empty_group_run:
  "run P (TestGroup_name n) w = (Inr True, TestGroup_name n, put (RunningGroup n) w)
   \<and> printed w (snd (snd (run P (TestGroup_name n) w))) = [RunningGroup n]"
  by (simp add: run_def TestGroup_name_def printed_def put_def)

theorem empty_group_run_witness:
  "fst (run example_platform (TestGroup_name ''third group'') empty_world) = Inr True
   \<and> cout (snd (snd (run example_platform (TestGroup_name ''third group'') empty_world)))
       = [RunningGroup ''third group'']"
  using empty_group_run[of example_platform "''third group''" empty_world]
  by (simp add: put_def empty_world_def run_def TestGroup_name_def)

subsection \<open>The order of the tests of a group\<close>

text \<open>
  C5. The variadic constructor delegates to the constructor for the remaining tests
  before its body adds the first test, so the vector holds the tests in the reverse of
  the order of the arguments, and \<open>run\<close> executes them in that reverse order:
  \<open>TestGroup("test group 1", math works, exception)\<close> runs \<open>exception\<close> first. (\<open>add\<close>
  appends: tests added one by one after construction run in the order of the calls.)
\<close>

theorem variadic_constructor_reverses:
  "tests (TestGroup_variadic n ts) = rev ts
   \<and> tests (add t2 (add t1 (TestGroup_name n))) = [t1, t2]
   \<and> tests group1 = [exception_test, math_works]
   \<and> filter is_TestStart (printed empty_world (snd (snd (run example_platform group1 empty_world))))
       = [TestStart ''exception'', TestStart ''math works'']"
  using tests_TestGroup_variadic[of n ts]
  by (simp add: group1_def math_works_def exception_test_def make_test_Simple_def invoke_def
      TestGroup_name_def add_def run_def Test_call_def put_def Let_def printed_def
      empty_world_def)

subsection \<open>\<open>TimedTest\<close>\<close>

text \<open>
  C4. When the wrapped \<open>doTest\<close> returns \<open>result\<close>, \<open>TimedTest::doTest\<close> returns
  \<open>result \<and> elapsed \<le> limit\<close>. Here \<open>elapsed\<close> is the number of milliseconds the code
  measures: the difference of the two readings of \<open>std::clock()\<close>, taken before and after
  the wrapped \<open>doTest\<close>, times 1000, divided by \<open>CLOCKS_PER_SEC\<close>, each step rounded to a
  double as line 209 computes it (and the plain quotient where nothing is rounded). A
  duration equal to the limit passes, only a greater one fails, and a test built without
  a limit (limit infinity) returns \<open>result\<close>. The limit is any double but NaN (the
  specification's limits are the non-negative numbers and "unbounded"), and
  \<open>CLOCKS_PER_SEC\<close> as a double is not zero. When the functor throws, no duration is
  measured: \<open>operator()\<close> of the test and of the timed test around it both return \<open>false\<close>.
\<close>

theorem TimedTest_result:
  fixes P :: platform and w w2 :: "'v world" and p p' q :: "('c, 'v) test"
  defines "ticks \<equiv> clock_reading P (clock_calls w2) - clock_reading P (clock_calls w)"
  defines "elapsed \<equiv>
    round_double P (round_double P (round_double P (of_int ticks) * 1000) /
                    round_double P (of_int (CLOCKS_PER_SEC P)))"
  assumes "round_double P (of_int (CLOCKS_PER_SEC P)) \<noteq> 0" and "limit \<noteq> NaN"
    and "doTest P p (snd (std_clock P w)) = (Inr result, p', w2)"
  shows "fst (doTest P (TimedTest limit p) w) = Inr (result \<and> dle (Finite elapsed) limit)
       \<and> (\<forall>l. limit = Finite l \<longrightarrow>
            fst (doTest P (TimedTest limit p) w) = Inr (result \<and> elapsed \<le> l))
       \<and> (limit = Finite elapsed \<longrightarrow> fst (doTest P (TimedTest limit p) w) = Inr result)
       \<and> (limit = PosInf \<longrightarrow> fst (doTest P (TimedTest limit p) w) = Inr result)
       \<and> fst (doTest P (make_timed_test p) w) = Inr result
       \<and> ((\<forall>x. round_double P x = x) \<longrightarrow>
            fst (doTest P (TimedTest limit p) w) =
              Inr (result \<and>
                   dle (Finite (of_int ticks * 1000 / of_int (CLOCKS_PER_SEC P))) limit))
       \<and> (thrown q = Some e \<longrightarrow>
            fst (Test_call P q w) = Inr False \<and> fst (Test_call P (TimedTest limit q) w) = Inr False)"
proof -
  let ?ms = "execution_ms P (fst (std_clock P w)) (fst (std_clock P w2))"
  have ms: "?ms = Finite elapsed"
    using execution_ms_Finite[OF assms(3)]
    by (simp add: std_clock_def elapsed_def ticks_def)
  then have fin: "?ms \<noteq> NaN"
    by simp
  have 1: "fst (doTest P (TimedTest limit p) w) = Inr (result \<and> dle (Finite elapsed) limit)"
    using doTest_Timed_Inr[OF assms(5), of limit] dless_iff_not_dle[OF assms(4) fin] ms
    by (simp add: Let_def del: doTest.simps)
  have 2: "\<forall>l. limit = Finite l \<longrightarrow>
      fst (doTest P (TimedTest limit p) w) = Inr (result \<and> elapsed \<le> l)"
    using 1 by (auto simp del: doTest.simps)
  have 3: "limit = Finite elapsed \<longrightarrow> fst (doTest P (TimedTest limit p) w) = Inr result"
    using 1 by (auto simp del: doTest.simps)
  have 4: "limit = PosInf \<longrightarrow> fst (doTest P (TimedTest limit p) w) = Inr result"
    using 1 by (auto simp del: doTest.simps)
  have 5: "fst (doTest P (make_timed_test p) w) = Inr result"
    using doTest_Timed_Inr[OF assms(5), of PosInf]
    by (simp add: Let_def make_timed_test_def dless_PosInf del: doTest.simps)
  have 6: "(\<forall>x. round_double P x = x) \<longrightarrow>
      fst (doTest P (TimedTest limit p) w) =
        Inr (result \<and> dle (Finite (of_int ticks * 1000 / of_int (CLOCKS_PER_SEC P))) limit)"
    using 1 by (simp add: elapsed_def del: doTest.simps)
  have 7: "thrown q = Some e \<longrightarrow>
      fst (Test_call P q w) = Inr False \<and> fst (Test_call P (TimedTest limit q) w) = Inr False"
    using Test_call_thrown(1)[of q e P w] Test_call_thrown(1)[of "TimedTest limit q" e P w]
    by simp
  from 1 2 3 4 5 6 7 show ?thesis by blast
qed

theorem TimedTest_result_witness:
  "round_double example_platform (of_int (CLOCKS_PER_SEC example_platform)) \<noteq> 0
   \<and> fst (std_clock example_platform empty_world) = 700
   \<and> fst (std_clock example_platform (snd (std_clock example_platform empty_world))) = 2700
   \<and> execution_ms example_platform 700 2700 = Finite 2
   \<and> fst (doTest example_platform (TimedTest (Finite 2) math_works) empty_world) = Inr True
   \<and> fst (doTest example_platform (TimedTest (Finite (3 / 2)) math_works) empty_world)
       = Inr False
   \<and> fst (doTest example_platform (make_timed_test math_works) empty_world) = Inr True"
proof -
  have c: "round_double example_platform (of_int (CLOCKS_PER_SEC example_platform)) \<noteq> 0"
    by (simp add: example_platform_def)
  have d: "doTest example_platform math_works (snd (std_clock example_platform empty_world))
      = (Inr True, math_works, snd (std_clock example_platform empty_world))"
    by (simp add: math_works_def make_test_Simple_def invoke_def)
  have r: "fst (std_clock example_platform empty_world) = 700"
    "fst (std_clock example_platform (snd (std_clock example_platform empty_world))) = 2700"
    by (simp_all add: std_clock_def example_platform_def empty_world_def)
  have ms: "execution_ms example_platform 700 2700 = Finite 2"
    by (simp add: execution_ms_def example_platform_def)
  have l2: "Finite 2 \<noteq> NaN" and l1: "Finite (3 / 2) \<noteq> NaN"
    by simp_all
  have t2: "fst (doTest example_platform (TimedTest (Finite 2) math_works) empty_world)
      = Inr True"
    using TimedTest_result[OF c l2 d, where q = exception_test
        and e = "StdException ''this is expected''"]
    by (simp add: std_clock_def example_platform_def empty_world_def del: doTest.simps)
  have t1: "fst (doTest example_platform (TimedTest (Finite (3 / 2)) math_works) empty_world)
      = Inr False"
    using TimedTest_result[OF c l1 d, where q = exception_test
        and e = "StdException ''this is expected''"]
    by (simp add: std_clock_def example_platform_def empty_world_def del: doTest.simps)
  have t0: "fst (doTest example_platform (make_timed_test math_works) empty_world) = Inr True"
    using TimedTest_result[OF c l2 d, where q = exception_test
        and e = "StdException ''this is expected''"]
    by (simp del: doTest.simps)
  from c r ms t2 t1 t0 show ?thesis by simp
qed

text \<open>
  C9 (as amended). When the wrapped \<open>doTest\<close> returns, \<open>TimedTest::doTest\<close> prints, after
  the lines of the wrapped test, the elapsed-time line, and then the line about the limit
  exactly when \<open>limit < elapsed\<close>. When the functor throws, the exception leaves
  \<open>TimedTest::doTest\<close> at the call of \<open>Parent::doTest()\<close>: nothing is printed after the
  lines of the wrapped test, so a timed simple or pretty test prints no elapsed-time line
  and no line about the limit.
\<close>

theorem TimedTest_output:
  "(\<forall>result p' w2. doTest P p (snd (std_clock P w)) = (Inr result, p', w2) \<longrightarrow>
      printed w (snd (snd (doTest P (TimedTest limit p) w))) =
        printed w w2 @
        FinishedIn (execution_ms P (fst (std_clock P w)) (fst (std_clock P w2))) #
        (if dless limit (execution_ms P (fst (std_clock P w)) (fst (std_clock P w2)))
         then [SlowerThan limit] else []))
   \<and> (\<forall>e p' w2. doTest P p (snd (std_clock P w)) = (Inl e, p', w2) \<longrightarrow>
        fst (doTest P (TimedTest limit p) w) = Inl e
        \<and> printed w (snd (snd (doTest P (TimedTest limit p) w))) = printed w w2
        \<and> (\<not> timed p \<longrightarrow> filter is_timing_message (printed w w2) = []))"
proof (intro conjI allI impI)
  fix result p' w2
  assume d: "doTest P p (snd (std_clock P w)) = (Inr result, p', w2)"
  let ?ms = "execution_ms P (fst (std_clock P w)) (fst (std_clock P w2))"
  from doTest_cout_le[of "snd (std_clock P w)" P p] d
  have le: "length (cout w) \<le> length (cout w2)"
    by (simp add: cout_std_clock)
  have "cout (snd (snd (doTest P (TimedTest limit p) w))) =
          cout w2 @ FinishedIn ?ms # (if dless limit ?ms then [SlowerThan limit] else [])"
    using doTest_Timed_Inr[OF d, of limit]
    by (simp add: Let_def cout_put cout_std_clock del: doTest.simps)
  from printed_extend[OF le this]
  show "printed w (snd (snd (doTest P (TimedTest limit p) w))) =
        printed w w2 @ FinishedIn ?ms # (if dless limit ?ms then [SlowerThan limit] else [])" .
next
  fix e p' w2
  assume d: "doTest P p (snd (std_clock P w)) = (Inl e, p', w2)"
  from doTest_Timed_Inl[OF d, of limit]
  show "fst (doTest P (TimedTest limit p) w) = Inl e"
    by (simp del: doTest.simps)
next
  fix e p' w2
  assume d: "doTest P p (snd (std_clock P w)) = (Inl e, p', w2)"
  from doTest_Timed_Inl[OF d, of limit]
  show "printed w (snd (snd (doTest P (TimedTest limit p) w))) = printed w w2"
    by (simp del: doTest.simps)
next
  fix e p' w2
  assume d: "doTest P p (snd (std_clock P w)) = (Inl e, p', w2)" and nt: "\<not> timed p"
  from doTest_untimed_cout[OF nt, of P "snd (std_clock P w)"] d obtain ms where
    ms: "cout w2 = cout w @ ms" "list_all is_check_message ms"
    by (auto simp: cout_std_clock)
  have "filter is_timing_message ms = []"
    using ms(2)
  proof (induction ms)
    case Nil
    show ?case by simp
  next
    case (Cons m ms)
    then show ?case by (cases m) auto
  qed
  with printed_append[OF ms(1)] show "filter is_timing_message (printed w w2) = []"
    by simp
qed

theorem TimedTest_output_witness:
  "printed empty_world
     (snd (snd (doTest example_platform (TimedTest (Finite 1) math_works) empty_world)))
     = [FinishedIn (Finite 2), SlowerThan (Finite 1)]
   \<and> printed empty_world
       (snd (snd (doTest example_platform (TimedTest (Finite 2) math_works) empty_world)))
     = [FinishedIn (Finite 2)]
   \<and> printed empty_world
       (snd (snd (doTest example_platform (TimedTest (Finite 1) exception_test) empty_world)))
     = []"
  using TimedTest_output[of example_platform math_works empty_world "Finite 1"]
    TimedTest_output[of example_platform math_works empty_world "Finite 2"]
    TimedTest_output[of example_platform exception_test empty_world "Finite 1"]
  by (simp add: math_works_def exception_test_def make_test_Simple_def invoke_def
      execution_ms_def std_clock_def example_platform_def empty_world_def printed_def put_def)

text \<open>
  C9, the claim as stated, fails: a timed test whose functor throws prints its first line,
  the handler's message and the verdict, and no elapsed-time line.
\<close>

theorem TimedTest_throwing_prints_no_elapsed_time:
  "cout (snd (snd (Test_call example_platform (make_timed_test exception_test) empty_world)))
     = [TestStart ''exception'', CaughtException ''this is expected'', Verdict False]
   \<and> \<not> (\<exists>ms. FinishedIn ms \<in> set (cout (snd (snd
          (Test_call example_platform (make_timed_test exception_test) empty_world)))))"
  by (simp add: make_timed_test_def exception_test_def make_test_Simple_def invoke_def
      Test_call_def std_clock_def put_def empty_world_def)

subsection \<open>Executing the same objects again\<close>

text \<open>
  C6 (as amended). \<open>result_\<close> is a member of the \<open>PrettyTest\<close> object, set to \<open>true\<close> by the
  constructor and never again: an execution starts from the value the one before left.
  Running a group a second time returns what the first run returned when every test of
  the group does the same at every execution (\<open>repeatable\<close>). In general the second
  execution of a \<open>PrettyTest\<close> whose functor returns both times yields the conjunction of
  the checks of both executions.
\<close>

theorem rerun_carries_result:
  "(list_all repeatable (tests g) \<longrightarrow>
      fst (run P (fst (snd (run P g w))) w') = fst (run P g w))
   \<and> (body f (captures f) = ((cs1, None), c1) \<and> body f c1 = ((cs2, None), c2) \<longrightarrow>
        fst (doTest P (fst (snd (doTest P (make_test_Pretty n f) w))) w') =
          Inr (list_all (call_value P) cs1 \<and> list_all (call_value P) cs2))"
proof (intro conjI impI)
  assume "list_all repeatable (tests g)"
  from run_repeat[OF this] show "fst (run P (fst (snd (run P g w))) w') = fst (run P g w)"
    by simp
next
  assume a: "body f (captures f) = ((cs1, None), c1) \<and> body f c1 = ((cs2, None), c2)"
  then have 1: "body f (captures f) = ((cs1, None), c1)" by simp
  from a have 2: "body (Functor c1 (body f)) (captures (Functor c1 (body f))) = ((cs2, None), c2)"
    by simp
  show "fst (doTest P (fst (snd (doTest P (make_test_Pretty n f) w))) w') =
          Inr (list_all (call_value P) cs1 \<and> list_all (call_value P) cs2)"
    using doTest_Pretty_normal[OF 1, of P n True w]
      doTest_Pretty_normal[OF 2, of P n "list_all (call_value P) cs1" w']
    by (simp add: make_test_Pretty_def)
qed

theorem rerun_carries_result_witness:
  "list_all repeatable (tests group1)
   \<and> fst (run example_platform (fst (snd (run example_platform group1 empty_world))) empty_world)
       = Inr False
   \<and> body flaky (captures flaky) = (([Check False example_location], None), 1)
   \<and> body flaky 1 = (([Check True example_location], None), 2)
   \<and> fst (doTest example_platform
        (fst (snd (doTest example_platform (make_test_Pretty ''flaky'' flaky) empty_world)))
        empty_world) = Inr False"
  using rerun_carries_result[of group1 example_platform empty_world empty_world flaky
      "[Check False example_location]" 1 "[Check True example_location]" 2 "''flaky''"]
  by (simp add: group1_def math_works_def exception_test_def make_test_Simple_def invoke_def
      TestGroup_name_def add_def run_def Test_call_def put_def Let_def flaky_def)

text \<open>
  C6, the claim as stated, fails. The functor \<open>flaky\<close> fails its check in the first
  execution and passes it in the second. The second run of the group that owns the test
  returns \<open>false\<close>, although the only check issued in it passes; a group with a newly
  constructed test around the functor in the same state returns \<open>true\<close>.
\<close>

theorem second_run_sees_first_runs_checks:
  "body flaky 1 = (([Check True example_location], None), 2)
   \<and> fst (run example_platform
        (fst (snd (run example_platform
           (TestGroup_variadic ''g'' [make_test_Pretty ''flaky'' flaky]) empty_world)))
        empty_world) = Inr False
   \<and> fst (run example_platform
        (TestGroup_variadic ''g'' [make_test_Pretty ''flaky'' (Functor 1 (body flaky))])
        empty_world) = Inr True"
  by (simp add: flaky_def make_test_Pretty_def invoke_def TestGroup_name_def add_def run_def
      Test_call_def put_def Let_def check_def)

subsection \<open>\<open>equals\<close> and \<open>float_equals\<close>\<close>

text \<open>
  C8. Both overloads of \<open>equals\<close> return what \<open>check(first == second)\<close> returns and leave
  \<open>result_\<close> as that call leaves it; the unconstrained overload is that call. (The
  overload for printable operands prints one more line when the check fails.)
\<close>

theorem equals_is_check:
  "fst (equals_printable a b loc s) = fst (check (a = b) loc s)
   \<and> fst (snd (equals_printable a b loc s)) = fst (snd (check (a = b) loc s))
   \<and> equals a b loc s = check (a = b) loc s"
  by (cases s) (simp add: equals_printable_def equals_def check_def)

theorem equals_is_check_witness:
  "fst (equals_printable ''c++ is the best!'' ''c++ is the worst!'' example_location
          (True, empty_world)) = False
   \<and> fst (check (''c++ is the best!'' = ''c++ is the worst!'') example_location
          (True, empty_world)) = False
   \<and> fst (snd (equals ''c++ is the best!'' ''c++ is the worst!'' example_location
          (True, empty_world))) = False"
  using equals_is_check[of "''c++ is the best!''" "''c++ is the worst!''" example_location
      "(True, empty_world)"]
  by (simp add: check_def)

text \<open>
  C7. In the build with \<open>std::source_location\<close>, \<open>float_equals\<close> returns \<open>abs(x - y) < error\<close>
  (the difference as the platform rounds it) and records it in \<open>result_\<close>; the comparison
  is strict, so values whose distance is \<open>error\<close> fail. (The text of \<open>float_equals\<close> in the other build, lines 170 to 177 of the
  header, names \<open>first\<close> and \<open>second\<close>, which are not declared, and lacks an operator
  before \<open>second\<close>: it is not a C++ function and has no embedding.)
\<close>

theorem float_equals_strict:
  "fst (float_equals P x y error loc s) = dless (dabs (dsub (round_double P) x y)) error
   \<and> fst (snd (float_equals P x y error loc s)) =
       (fst s \<and> dless (dabs (dsub (round_double P) x y)) error)
   \<and> (dabs (dsub (round_double P) x y) = error \<longrightarrow>
        fst (float_equals P x y error loc s) = False)"
  using dless_irrefl[of error]
  by (cases s) (auto simp: float_equals_def check_def)

theorem float_equals_strict_witness:
  "dabs (dsub (round_double example_platform) (Finite 1) (Finite 2)) = Finite 1
   \<and> fst (float_equals example_platform (Finite 1) (Finite 2) (Finite 1) example_location
            (True, empty_world)) = False
   \<and> fst (float_equals example_platform (Finite 1) (Finite (5 / 4)) (Finite (1 / 8))
            example_location (True, empty_world)) = False
   \<and> fst (float_equals example_platform (Finite 1) (Finite (17 / 16)) (Finite (1 / 8))
            example_location (True, empty_world)) = True"
  using float_equals_strict[of example_platform "Finite 1" "Finite 2" "Finite 1"
      example_location "(True, empty_world)"]
  by (simp add: float_equals_def check_def example_platform_def)

end
